theory Spec2Isabelle
  imports Complex_Main
begin

section \<open>Numbers\<close>

text \<open>
  A JavaScript \<^verbatim>\<open>number\<close> is read as the exact rational it denotes: the arithmetic of
  the scorer is done on decimal fractions of small integers, and the rounding that the
  engine itself performs (\<^verbatim>\<open>Math.round\<close>) is modelled; the binary rounding of IEEE-754
  intermediate results, \<^verbatim>\<open>NaN\<close> and the infinities are not.
\<close>

type_synonym number = rat

text \<open>\<^verbatim>\<open>Math.round(x)\<close>: the nearest integer, a tie going to the larger one.\<close>

definition Math_round :: "number \<Rightarrow> number" where
  "Math_round x = of_int \<lfloor>x + 1 / 2\<rfloor>"

definition Math_max :: "number \<Rightarrow> number \<Rightarrow> number" where
  "Math_max a b = max a b"

definition Math_min :: "number \<Rightarrow> number \<Rightarrow> number" where
  "Math_min a b = min a b"

section \<open>Game settings (config.ts)\<close>

definition config_game_baseReward :: number where
  "config_game_baseReward = 100"

definition config_game_maxStreakBonus :: number where
  "config_game_maxStreakBonus = 2"

section \<open>Scoring (game/scorer.ts)\<close>

record ScoringResult =
  baseReward :: number
  confidenceMultiplier :: number
  streakBonus :: number
  totalReward :: number
  newStreak :: number

definition calculateReward :: "number \<Rightarrow> number \<Rightarrow> ScoringResult" where
  "calculateReward confidence currentStreak =
     (let validConfidence = Math_max 1 (Math_min 10 confidence);
          confidenceMultiplier = validConfidence / 5;
          newStreak = currentStreak + 1;
          streakBonus = Math_min config_game_maxStreakBonus (1 + (newStreak * 0.1));
          totalReward = config_game_baseReward * confidenceMultiplier * streakBonus
      in \<lparr> baseReward = config_game_baseReward,
           confidenceMultiplier = confidenceMultiplier,
           streakBonus = streakBonus,
           totalReward = Math_round (totalReward * 100) / 100,
           newStreak = newStreak \<rparr>)"


section \<open>Strings\<close>

text \<open>
  A string is a list of characters below 256, read as UTF-16 code units in the Latin-1
  range. \<^verbatim>\<open>toLowerCase\<close> maps \<^verbatim>\<open>A-Z\<close> and the accented capitals (192 to 222 without the
  multiplication sign 215) to the letter 32 places later and leaves the rest alone.
\<close>

definition lower_char :: "char \<Rightarrow> char" where
  "lower_char c =
     (let n = (of_char c :: nat)
      in if (65 \<le> n \<and> n \<le> 90) \<or> (192 \<le> n \<and> n \<le> 222 \<and> n \<noteq> 215)
         then char_of (n + 32) else c)"

definition toLowerCase :: "string \<Rightarrow> string" where
  "toLowerCase s = map lower_char s"

fun startsWith :: "string \<Rightarrow> string \<Rightarrow> bool" where
  "startsWith s [] = True"
| "startsWith [] (c # cs) = False"
| "startsWith (x # xs) (c # cs) = (x = c \<and> startsWith xs cs)"

text \<open>\<^verbatim>\<open>s.includes(t)\<close>: \<open>t\<close> occurs in \<open>s\<close> as a contiguous run.\<close>

fun str_includes :: "string \<Rightarrow> string \<Rightarrow> bool" where
  "str_includes [] t = (t = [])"
| "str_includes (x # xs) t = (startsWith (x # xs) t \<or> str_includes xs t)"

text \<open>A JavaScript value used as a condition: \<^verbatim>\<open>null\<close>, \<^verbatim>\<open>undefined\<close> and the empty string are falsy.\<close>

fun truthy :: "string option \<Rightarrow> bool" where
  "truthy None = False"
| "truthy (Some s) = (s \<noteq> [])"

text \<open>\<^verbatim>\<open>x || null\<close> on an optional string.\<close>

definition or_null :: "string option \<Rightarrow> string option" where
  "or_null x = (if truthy x then x else None)"

text \<open>\<^verbatim>\<open>x || y\<close> on an optional string \<open>x\<close> and a string \<open>y\<close>.\<close>

fun or_else :: "string option \<Rightarrow> string \<Rightarrow> string" where
  "or_else None y = y"
| "or_else (Some s) y = (if s = [] then y else s)"

section \<open>Dates\<close>

text \<open>
  A valid \<^verbatim>\<open>Date\<close> is given by its local calendar fields: year, month (0 to 11), day of
  the month, and milliseconds since local midnight; the local zone is taken to be UTC.
  The setters normalise a day outside the month by stepping through the months of the
  proleptic Gregorian calendar, and give an invalid date when the result lies more than
  100,000,000 days from 1 January 1970.
\<close>

record civil =
  c_year :: int
  c_month :: int
  c_date :: int
  c_time :: int

datatype jsdate = InvalidDate | ValidDate civil

definition is_leap :: "int \<Rightarrow> bool" where
  "is_leap y \<longleftrightarrow> y mod 4 = 0 \<and> (y mod 100 \<noteq> 0 \<or> y mod 400 = 0)"

definition daysInMonth :: "int \<Rightarrow> int \<Rightarrow> int" where
  "daysInMonth y m =
     (if m = 1 then (if is_leap y then 29 else 28)
      else if m = 3 \<or> m = 5 \<or> m = 8 \<or> m = 10 then 30
      else 31)"

function normDay :: "int \<Rightarrow> int \<Rightarrow> int \<Rightarrow> int \<times> int \<times> int" where
  "normDay y m d =
     (if d < 1
      then normDay (if m = 0 then y - 1 else y) (if m = 0 then 11 else m - 1)
             (d + daysInMonth (if m = 0 then y - 1 else y) (if m = 0 then 11 else m - 1))
      else if daysInMonth y m < d
      then normDay (if m = 11 then y + 1 else y) (if m = 11 then 0 else m + 1)
             (d - daysInMonth y m)
      else (y, m, d))"
  by pat_completeness auto
termination
proof (relation "measure (\<lambda>(y, m, d). nat (if d < 1 then 32 - d else d))")
  show "wf (measure (\<lambda>(y, m, d). nat (if d < 1 then 32 - d else d)))" by simp
next
  fix y m d :: int
  assume "d < 1"
  then show "((if m = 0 then y - 1 else y, if m = 0 then 11 else m - 1,
               d + daysInMonth (if m = 0 then y - 1 else y) (if m = 0 then 11 else m - 1)),
              y, m, d) \<in> measure (\<lambda>(y, m, d). nat (if d < 1 then 32 - d else d))"
    by (auto simp: daysInMonth_def)
next
  fix y m d :: int
  assume "\<not> d < 1" "daysInMonth y m < d"
  then show "((if m = 11 then y + 1 else y, if m = 11 then 0 else m + 1, d - daysInMonth y m),
              y, m, d) \<in> measure (\<lambda>(y, m, d). nat (if d < 1 then 32 - d else d))"
    by (auto simp: daysInMonth_def)
qed

declare normDay.simps [simp del]

definition dayFromYear :: "int \<Rightarrow> int" where
  "dayFromYear y = 365 * (y - 1970) + (y - 1969) div 4 - (y - 1901) div 100 + (y - 1601) div 400"

definition dayNumber :: "int \<Rightarrow> int \<Rightarrow> int \<Rightarrow> int" where
  "dayNumber y m d = dayFromYear y + sum_list (map (daysInMonth y) [0 .. m - 1]) + d - 1"

definition timeClip_ok :: "int \<Rightarrow> int \<Rightarrow> int \<Rightarrow> int \<Rightarrow> bool" where
  "timeClip_ok y m d t \<longleftrightarrow> \<bar>dayNumber y m d * 86400000 + t\<bar> \<le> 8640000000000000"

definition makeDate :: "int \<Rightarrow> int \<Rightarrow> int \<Rightarrow> int \<Rightarrow> jsdate" where
  "makeDate y m d t =
     (case normDay (y + m div 12) (m mod 12) d of
        (y', m', d') \<Rightarrow>
          if timeClip_ok y' m' d' t
          then ValidDate \<lparr> c_year = y', c_month = m', c_date = d', c_time = t \<rparr>
          else InvalidDate)"

definition getFullYear :: "civil \<Rightarrow> int" where "getFullYear c = c_year c"
definition getMonth :: "civil \<Rightarrow> int" where "getMonth c = c_month c"
definition getDate :: "civil \<Rightarrow> int" where "getDate c = c_date c"

definition setDate :: "civil \<Rightarrow> int \<Rightarrow> jsdate" where
  "setDate c dt = makeDate (c_year c) (c_month c) dt (c_time c)"

definition setMonth :: "civil \<Rightarrow> int \<Rightarrow> jsdate" where
  "setMonth c m = makeDate (c_year c) m (c_date c) (c_time c)"

definition setMonth2 :: "civil \<Rightarrow> int \<Rightarrow> int \<Rightarrow> jsdate" where
  "setMonth2 c m dt = makeDate (c_year c) m dt (c_time c)"

definition setFullYear :: "civil \<Rightarrow> int \<Rightarrow> jsdate" where
  "setFullYear c y = makeDate y (c_month c) (c_date c) (c_time c)"

section \<open>The record store (db/sqlite.ts)\<close>

text \<open>
  Each table is the list of its rows in insertion order. \<^verbatim>\<open>CURRENT_TIMESTAMP\<close> is a
  parameter \<open>now\<close> of the operations that read it, and a fresh \<^verbatim>\<open>uuidv4()\<close> is a
  parameter \<open>uuid\<close>. SQLite integers are read as unbounded integers. A deadline column
  holds the date that its ISO text denotes.
\<close>

type_synonym timestamp = nat

record agent =
  a_id :: string
  moltbook_name :: string
  wallet_address :: "string option"
  total_predictions :: int
  correct_predictions :: int
  current_streak :: int
  best_streak :: int
  total_ort_earned :: number
  a_created_at :: timestamp
  a_updated_at :: timestamp

record prediction =
  p_id :: string
  agent_id :: string
  topic_id :: "string option"
  post_id :: "string option"
  comment_id :: "string option"
  prediction_text :: string
  outcome_predicted :: "string option"
  deadline :: "civil option"
  confidence :: int
  category :: string
  status :: string
  tx_hash :: "string option"
  on_chain_id :: "string option"
  p_created_at :: timestamp
  resolved_at :: "timestamp option"

record topic =
  t_id :: string
  t_post_id :: "string option"
  title :: string
  description :: "string option"
  t_category :: string
  t_deadline :: "civil option"
  resolved :: bool
  actual_outcome :: "string option"
  polymarket_id :: "string option"
  polymarket_data :: "string option"
  source :: string
  t_created_at :: timestamp
  t_resolved_at :: "timestamp option"

record store =
  agents :: "agent list"
  predictions :: "prediction list"
  topics :: "topic list"

definition empty_store :: store where
  "empty_store = \<lparr> agents = [], predictions = [], topics = [] \<rparr>"

text \<open>What a throwing call leaves behind: the kind of the exception and its message.\<close>

datatype error = Error string | TypeError string | RangeError string | SqliteError string

definition getAgent :: "store \<Rightarrow> string \<Rightarrow> agent option" where
  "getAgent st agentId = find (\<lambda>a. a_id a = agentId) (agents st)"

definition getAgentByName :: "store \<Rightarrow> string \<Rightarrow> agent option" where
  "getAgentByName st moltbookName = find (\<lambda>a. moltbook_name a = moltbookName) (agents st)"

text \<open>
  The \<^verbatim>\<open>INSERT\<close> names the id and the name only, so every counter takes its column
  default 0. A uuid that is already a primary key makes the \<^verbatim>\<open>INSERT\<close> throw.
\<close>

definition getOrCreateAgent ::
  "store \<Rightarrow> timestamp \<Rightarrow> string \<Rightarrow> string \<Rightarrow> (error + agent) \<times> store" where
  "getOrCreateAgent st now uuid moltbookName =
     (case getAgentByName st moltbookName of
        Some a \<Rightarrow> (Inr a, st)
      | None \<Rightarrow>
          (if getAgent st uuid \<noteq> None
           then (Inl (SqliteError ''UNIQUE constraint failed: agents.id''), st)
           else
             (let a = \<lparr> a_id = uuid, moltbook_name = moltbookName, wallet_address = None,
                        total_predictions = 0, correct_predictions = 0, current_streak = 0,
                        best_streak = 0, total_ort_earned = 0,
                        a_created_at = now, a_updated_at = now \<rparr>
              in (Inr a, st\<lparr> agents := agents st @ [a] \<rparr>))))"

definition updateAgentWallet :: "store \<Rightarrow> timestamp \<Rightarrow> string \<Rightarrow> string \<Rightarrow> store" where
  "updateAgentWallet st now agentId walletAddress =
     st\<lparr> agents := map (\<lambda>a. if a_id a = agentId
                              then a\<lparr> wallet_address := Some walletAddress, a_updated_at := now \<rparr>
                              else a) (agents st) \<rparr>"

record createPrediction_data =
  d_agentId :: string
  d_topicId :: "string option"
  d_postId :: "string option"
  d_commentId :: "string option"
  d_predictionText :: string
  d_outcomePredicted :: "string option"
  d_deadline :: "jsdate option"
  d_confidence :: int
  d_category :: "string option"

definition getPrediction :: "store \<Rightarrow> string \<Rightarrow> prediction option" where
  "getPrediction st pid = find (\<lambda>p. p_id p = pid) (predictions st)"

text \<open>
  \<^verbatim>\<open>data.deadline?.toISOString() || null\<close>: an invalid date makes \<^verbatim>\<open>toISOString\<close> throw
  while the arguments of the \<^verbatim>\<open>INSERT\<close> are evaluated.
\<close>

fun toISOString_or_null :: "jsdate option \<Rightarrow> error + civil option" where
  "toISOString_or_null None = Inr None"
| "toISOString_or_null (Some InvalidDate) = Inl (RangeError ''Invalid time value'')"
| "toISOString_or_null (Some (ValidDate c)) = Inr (Some c)"

text \<open>
  The foreign key of \<^verbatim>\<open>agent_id\<close> is not enforced here: a store reachable under
  enforcement is reachable without it.
\<close>

definition createPrediction ::
  "store \<Rightarrow> timestamp \<Rightarrow> string \<Rightarrow> createPrediction_data \<Rightarrow> (error + string) \<times> store" where
  "createPrediction st now uuid d =
     (case toISOString_or_null (d_deadline d) of
        Inl e \<Rightarrow> (Inl e, st)
      | Inr stored \<Rightarrow>
          (if getPrediction st uuid \<noteq> None
           then (Inl (SqliteError ''UNIQUE constraint failed: predictions.id''), st)
           else
             (let p = \<lparr> p_id = uuid, agent_id = d_agentId d,
                        topic_id = or_null (d_topicId d), post_id = or_null (d_postId d),
                        comment_id = or_null (d_commentId d),
                        prediction_text = d_predictionText d,
                        outcome_predicted = or_null (d_outcomePredicted d),
                        deadline = stored,
                        confidence = d_confidence d,
                        category = or_else (d_category d) ''other'',
                        status = ''pending'', tx_hash = None, on_chain_id = None,
                        p_created_at = now, resolved_at = None \<rparr>
              in (Inr uuid, st\<lparr> predictions := predictions st @ [p] \<rparr>))))"

text \<open>
  The inner join with \<^verbatim>\<open>agents\<close> keeps the pending rows whose agent exists and adds the
  agent's name and wallet; \<^verbatim>\<open>ORDER BY created_at ASC\<close> is a stable sort of the rows.
\<close>

definition getPendingPredictions :: "store \<Rightarrow> (prediction \<times> string \<times> string option) list" where
  "getPendingPredictions st =
     List.map_filter
       (\<lambda>p. if status p = ''pending''
            then map_option (\<lambda>a. (p, moltbook_name a, wallet_address a)) (getAgent st (agent_id p))
            else None)
       (sort_key p_created_at (predictions st))"

definition db_resolvePrediction ::
  "store \<Rightarrow> timestamp \<Rightarrow> string \<Rightarrow> bool \<Rightarrow> string option \<Rightarrow> store" where
  "db_resolvePrediction st now pid correct txHash =
     (let status' = (if correct then ''resolved_correct'' else ''resolved_wrong'');
          st1 = st\<lparr> predictions := map (\<lambda>p. if p_id p = pid
                        then p\<lparr> status := status', resolved_at := Some now,
                               tx_hash := or_null txHash \<rparr>
                        else p) (predictions st) \<rparr>
      in case getPrediction st1 pid of
           None \<Rightarrow> st1
         | Some prediction \<Rightarrow>
             (if correct
              then st1\<lparr> agents := map (\<lambda>a. if a_id a = agent_id prediction
                            then a\<lparr> correct_predictions := correct_predictions a + 1,
                                   current_streak := current_streak a + 1,
                                   best_streak := max (best_streak a) (current_streak a + 1),
                                   a_updated_at := now \<rparr>
                            else a) (agents st1) \<rparr>
              else st1\<lparr> agents := map (\<lambda>a. if a_id a = agent_id prediction
                            then a\<lparr> current_streak := 0, a_updated_at := now \<rparr>
                            else a) (agents st1) \<rparr>))"

record createTopic_data =
  d_postId' :: "string option"
  d_title :: string
  d_description :: "string option"
  d_category' :: "string option"
  d_deadline' :: "jsdate option"
  d_polymarketId :: "string option"
  d_polymarketData :: "string option"
  d_source :: "string option"

definition getTopic :: "store \<Rightarrow> string \<Rightarrow> topic option" where
  "getTopic st tid = find (\<lambda>t. t_id t = tid) (topics st)"

definition createTopic ::
  "store \<Rightarrow> timestamp \<Rightarrow> string \<Rightarrow> createTopic_data \<Rightarrow> (error + string) \<times> store" where
  "createTopic st now uuid d =
     (case toISOString_or_null (d_deadline' d) of
        Inl e \<Rightarrow> (Inl e, st)
      | Inr stored \<Rightarrow>
          (if getTopic st uuid \<noteq> None
           then (Inl (SqliteError ''UNIQUE constraint failed: topics.id''), st)
           else
             (let t = \<lparr> t_id = uuid, t_post_id = or_null (d_postId' d), title = d_title d,
                        description = or_null (d_description d),
                        t_category = or_else (d_category' d) ''other'',
                        t_deadline = stored,
                        resolved = False, actual_outcome = None,
                        polymarket_id = or_null (d_polymarketId d),
                        polymarket_data = d_polymarketData d,
                        source = or_else (d_source d) ''generated'',
                        t_created_at = now, t_resolved_at = None \<rparr>
              in (Inr uuid, st\<lparr> topics := topics st @ [t] \<rparr>))))"

definition db_resolveTopic :: "store \<Rightarrow> timestamp \<Rightarrow> string \<Rightarrow> string \<Rightarrow> store" where
  "db_resolveTopic st now tid actualOutcome =
     st\<lparr> topics := map (\<lambda>t. if t_id t = tid
                              then t\<lparr> resolved := True, actual_outcome := Some actualOutcome,
                                     t_resolved_at := Some now \<rparr>
                              else t) (topics st) \<rparr>"

section \<open>Settlement (game/resolver.ts)\<close>

record ResolutionResult =
  r_predictionId :: string
  r_agentName :: string
  r_correct :: bool
  r_reward :: number
  r_newStreak :: number
  r_txHash :: "string option"

text \<open>
  \<^verbatim>\<open>blockchain.resolvePredictionOnChain\<close> is the ledger connector: the parameter \<open>chain\<close>
  gives, for an on-chain id and a verdict, the transaction hash or the exception. The
  \<^verbatim>\<open>try\<close> around the call drops the exception and leaves \<^verbatim>\<open>txHash\<close> undefined.
\<close>

definition tryChain ::
  "(string \<Rightarrow> bool \<Rightarrow> error + string) \<Rightarrow> string option \<Rightarrow> bool \<Rightarrow> string option" where
  "tryChain chain ocid correct =
     (case ocid of
        None \<Rightarrow> None
      | Some oc \<Rightarrow> (case chain oc correct of Inl e \<Rightarrow> None | Inr h \<Rightarrow> Some h))"

text \<open>
  The result is the value returned or the exception thrown, with the store as the call
  leaves it. Reading a field of a missing agent row throws a \<^verbatim>\<open>TypeError\<close>: on a correct
  verdict before the store is written, on an incorrect one only when the result is built.
  The statement that would add the reward to \<^verbatim>\<open>total_ort_earned\<close> is a string that is
  never run.
\<close>

definition resolvePrediction ::
  "store \<Rightarrow> timestamp \<Rightarrow> (string \<Rightarrow> bool \<Rightarrow> error + string) \<Rightarrow> string \<Rightarrow> bool \<Rightarrow> bool
     \<Rightarrow> (error + ResolutionResult) \<times> store" where
  "resolvePrediction st now chain predictionId correct useBlockchain =
     (case getPrediction st predictionId of
        None \<Rightarrow> (Inl (Error (''Prediction not found: '' @ predictionId)), st)
      | Some prediction \<Rightarrow>
          (if status prediction \<noteq> ''pending''
           then (Inl (Error (''Prediction already resolved: '' @ predictionId)), st)
           else
             (case getAgent st (agent_id prediction) of
                None \<Rightarrow>
                  (if correct
                   then (Inl (TypeError ''Cannot read properties of undefined''), st)
                   else
                     (let txHash = (if useBlockchain \<and> truthy (on_chain_id prediction)
                                    then tryChain chain (on_chain_id prediction) False
                                    else None)
                      in (Inl (TypeError ''Cannot read properties of undefined''),
                          db_resolvePrediction st now predictionId correct txHash)))
              | Some agent \<Rightarrow>
                  (let scoring = calculateReward (of_int (confidence prediction))
                                   (of_int (current_streak agent));
                       reward = (if correct then totalReward scoring else 0);
                       newStreak = (if correct then newStreak scoring else 0);
                       txHash =
                         (if correct
                          then (if useBlockchain \<and> truthy (on_chain_id prediction)
                                   \<and> truthy (wallet_address agent)
                                then tryChain chain (on_chain_id prediction) True
                                else None)
                          else (if useBlockchain \<and> truthy (on_chain_id prediction)
                                then tryChain chain (on_chain_id prediction) False
                                else None));
                       st' = db_resolvePrediction st now predictionId correct txHash
                   in (Inr \<lparr> r_predictionId = predictionId,
                              r_agentName = moltbook_name agent,
                              r_correct = correct,
                              r_reward = reward,
                              r_newStreak = newStreak,
                              r_txHash = txHash \<rparr>, st')))))"

text \<open>
  The verdict on one forecast, as the loop of \<^verbatim>\<open>resolveTopic\<close> computes it into
  \<^verbatim>\<open>correct\<close>: \<open>fragment\<close> is \<^verbatim>\<open>prediction.outcome_predicted || prediction.prediction_text\<close>.
\<close>

definition matchOutcome :: "string \<Rightarrow> string \<Rightarrow> string list \<Rightarrow> bool" where
  "matchOutcome fragment actualOutcome matchingOutcomes =
     (let predictionLower = toLowerCase fragment;
          outcomeLower = toLowerCase actualOutcome
      in if length matchingOutcomes > 0
         then list_ex (\<lambda>m. str_includes predictionLower (toLowerCase m)) matchingOutcomes
         else
           (let positiveTerms = [''yes'', ''will'', ''true'', ''happen'', ''succeed''];
                negativeTerms = [''no'', ''won't'', ''false'', ''fail'', ''not''];
                predictionPositive = list_ex (\<lambda>t. str_includes predictionLower t) positiveTerms;
                predictionNegative = list_ex (\<lambda>t. str_includes predictionLower t) negativeTerms;
                outcomePositive = (str_includes outcomeLower ''yes''
                                   \<or> str_includes outcomeLower ''happened''
                                   \<or> str_includes outcomeLower ''true'')
            in if predictionPositive \<and> \<not> predictionNegative then outcomePositive
               else if predictionNegative \<and> \<not> predictionPositive then \<not> outcomePositive
               else False))"

text \<open>
  The loop over the pending forecasts of the topic: an exception of
  \<^verbatim>\<open>resolvePrediction\<close> is caught and logged, and the loop goes on with the store as the
  failed call left it.
\<close>

fun resolveTopic_loop ::
  "store \<Rightarrow> timestamp \<Rightarrow> (string \<Rightarrow> bool \<Rightarrow> error + string) \<Rightarrow> string \<Rightarrow> string list
     \<Rightarrow> (prediction \<times> string \<times> string option) list \<Rightarrow> ResolutionResult list
     \<Rightarrow> ResolutionResult list \<times> store" where
  "resolveTopic_loop st now chain actualOutcome matchingOutcomes [] results = (results, st)"
| "resolveTopic_loop st now chain actualOutcome matchingOutcomes (row # rows) results =
     (let prediction = fst row;
          correct = matchOutcome
                      (or_else (outcome_predicted prediction) (prediction_text prediction))
                      actualOutcome matchingOutcomes
      in case resolvePrediction st now chain (p_id prediction) correct True of
           (Inr result, st') \<Rightarrow>
             resolveTopic_loop st' now chain actualOutcome matchingOutcomes rows
               (results @ [result])
         | (Inl e, st') \<Rightarrow>
             resolveTopic_loop st' now chain actualOutcome matchingOutcomes rows results)"

definition resolveTopic ::
  "store \<Rightarrow> timestamp \<Rightarrow> (string \<Rightarrow> bool \<Rightarrow> error + string) \<Rightarrow> string \<Rightarrow> string \<Rightarrow> string list
     \<Rightarrow> (error + ResolutionResult list) \<times> store" where
  "resolveTopic st now chain topicId actualOutcome matchingOutcomes =
     (case getTopic st topicId of
        None \<Rightarrow> (Inl (Error (''Topic not found: '' @ topicId)), st)
      | Some topic \<Rightarrow>
          (if resolved topic
           then (Inl (Error (''Topic already resolved: '' @ topicId)), st)
           else
             (let st1 = db_resolveTopic st now topicId actualOutcome;
                  predictions = filter (\<lambda>row. topic_id (fst row) = Some topicId)
                                  (getPendingPredictions st1);
                  done = resolveTopic_loop st1 now chain actualOutcome matchingOutcomes
                           predictions []
              in (Inr (fst done), snd done))))"





section \<open>Runs of the store\<close>

text \<open>One step is one writing operation of the store module, with any arguments.\<close>

inductive step :: "store \<Rightarrow> store \<Rightarrow> bool" where
  step_getOrCreateAgent: "step st (snd (getOrCreateAgent st now uuid moltbookName))"
| step_updateAgentWallet: "step st (updateAgentWallet st now agentId walletAddress)"
| step_createPrediction: "step st (snd (createPrediction st now uuid d))"
| step_resolvePrediction: "step st (db_resolvePrediction st now pid correct txHash)"
| step_createTopic: "step st (snd (createTopic st now uuid t))"
| step_resolveTopic: "step st (db_resolveTopic st now tid actualOutcome)"

inductive reachable :: "store \<Rightarrow> bool" where
  reachable_empty: "reachable empty_store"
| reachable_step: "reachable st \<Longrightarrow> step st st' \<Longrightarrow> reachable st'"

section \<open>A small store\<close>

text \<open>
  One agent with no history and one pending forecast of confidence 5; the ledger
  connector always fails.
\<close>

definition ex_agent :: agent where
  "ex_agent = \<lparr> a_id = ''a1'', moltbook_name = ''alice'', wallet_address = None,
     total_predictions = 0, correct_predictions = 0, current_streak = 0, best_streak = 0,
     total_ort_earned = 0, a_created_at = 1, a_updated_at = 1 \<rparr>"

definition ex_data :: createPrediction_data where
  "ex_data = \<lparr> d_agentId = ''a1'', d_topicId = Some ''t1'', d_postId = None,
     d_commentId = None, d_predictionText = ''BTC will rise'',
     d_outcomePredicted = Some ''rise'', d_deadline = None, d_confidence = 5,
     d_category = Some ''crypto'' \<rparr>"

definition ex_prediction :: prediction where
  "ex_prediction = \<lparr> p_id = ''p1'', agent_id = ''a1'', topic_id = Some ''t1'', post_id = None,
     comment_id = None, prediction_text = ''BTC will rise'', outcome_predicted = Some ''rise'',
     deadline = None, confidence = 5, category = ''crypto'', status = ''pending'',
     tx_hash = None, on_chain_id = None, p_created_at = 2, resolved_at = None \<rparr>"

definition ex_store :: store where
  "ex_store = \<lparr> agents = [ex_agent], predictions = [ex_prediction], topics = [] \<rparr>"

definition no_chain :: "string \<Rightarrow> bool \<Rightarrow> error + string" where
  "no_chain ocid correct = Inl (Error ''ledger unavailable'')"

definition ex_store_settled :: store where
  "ex_store_settled = snd (resolvePrediction ex_store 9 no_chain ''p1'' True False)"

section \<open>Regular expressions\<close>

text \<open>
  The regular expressions of the parser use literals, the classes \<^verbatim>\<open>\s\<close>, \<^verbatim>\<open>\w\<close>, \<^verbatim>\<open>\d\<close>
  and \<^verbatim>\<open>.\<close> under a greedy or lazy counted repetition, capturing groups that are not
  nested, alternations of such sequences, and \<^verbatim>\<open>$\<close>. They are matched as a backtracking
  matcher does: the leftmost start first, and from each start the choices in priority
  order, the first complete match winning.
\<close>

datatype cls = Space | Word | Digit | Dot

definition is_space :: "char \<Rightarrow> bool" where
  "is_space c = (let n = (of_char c :: nat) in (9 \<le> n \<and> n \<le> 13) \<or> n = 32 \<or> n = 160)"

definition is_digit :: "char \<Rightarrow> bool" where
  "is_digit c = (let n = (of_char c :: nat) in 48 \<le> n \<and> n \<le> 57)"

definition is_word :: "char \<Rightarrow> bool" where
  "is_word c = (let n = (of_char c :: nat)
                in (65 \<le> n \<and> n \<le> 90) \<or> (97 \<le> n \<and> n \<le> 122) \<or> (48 \<le> n \<and> n \<le> 57) \<or> n = 95)"

definition is_line_terminator :: "char \<Rightarrow> bool" where
  "is_line_terminator c = (let n = (of_char c :: nat) in n = 10 \<or> n = 13)"

fun in_cls :: "cls \<Rightarrow> char \<Rightarrow> bool" where
  "in_cls Space c = is_space c"
| "in_cls Word c = is_word c"
| "in_cls Digit c = is_digit c"
| "in_cls Dot c = (\<not> is_line_terminator c)"

text \<open>
  Under the flag \<^verbatim>\<open>i\<close> two characters match when their canonical (upper-case) forms are
  equal.
\<close>

definition upper_char :: "char \<Rightarrow> char" where
  "upper_char c =
     (let n = (of_char c :: nat)
      in if (97 \<le> n \<and> n \<le> 122) \<or> (224 \<le> n \<and> n \<le> 254 \<and> n \<noteq> 247)
         then char_of (n - 32) else c)"

fun lit_prefix :: "bool \<Rightarrow> string \<Rightarrow> string \<Rightarrow> bool" where
  "lit_prefix ci [] s = True"
| "lit_prefix ci (l # ls) [] = False"
| "lit_prefix ci (l # ls) (c # cs) =
     ((if ci then upper_char l = upper_char c else l = c) \<and> lit_prefix ci ls cs)"

text \<open>
  \<open>Rep c lo hi greedy\<close> is the class \<open>c\<close> repeated at least \<open>lo\<close> and at most \<open>hi\<close> times
  (\<open>None\<close>: unbounded).
\<close>

datatype atom = Lit string | Rep cls nat "nat option" bool | Eoi

datatype tok = Atom atom | Open | Close | Alt "atom list list"

fun first_of :: "('a \<Rightarrow> 'r option) \<Rightarrow> 'a list \<Rightarrow> 'r option" where
  "first_of f [] = None"
| "first_of f (x # xs) = (case f x of Some r \<Rightarrow> Some r | None \<Rightarrow> first_of f xs)"

text \<open>
  The numbers of repetitions a counted class can take at the front of \<open>s\<close>, in the order
  in which backtracking tries them: longest first when greedy, shortest first when lazy.
\<close>

definition rep_counts :: "cls \<Rightarrow> nat \<Rightarrow> nat option \<Rightarrow> bool \<Rightarrow> string \<Rightarrow> nat list" where
  "rep_counts c lo hi greedy s =
     (let n = length (takeWhile (in_cls c) s);
          top = (case hi of None \<Rightarrow> n | Some h \<Rightarrow> min h n);
          ks = [lo ..< Suc top]
      in if greedy then rev ks else ks)"

fun m_atom :: "bool \<Rightarrow> atom \<Rightarrow> (string \<Rightarrow> 'r option) \<Rightarrow> string \<Rightarrow> 'r option" where
  "m_atom ci (Lit l) k s = (if lit_prefix ci l s then k (drop (length l) s) else None)"
| "m_atom ci (Rep c lo hi greedy) k s = first_of (\<lambda>j. k (drop j s)) (rep_counts c lo hi greedy s)"
| "m_atom ci Eoi k s = (if s = [] then k s else None)"

primrec m_atoms :: "bool \<Rightarrow> atom list \<Rightarrow> (string \<Rightarrow> 'r option) \<Rightarrow> string \<Rightarrow> 'r option" where
  "m_atoms ci [] k = k"
| "m_atoms ci (a # as) k = m_atom ci a (m_atoms ci as k)"

text \<open>
  The state of the groups: the inputs at which the groups now open were entered, and the
  texts of the groups closed so far.
\<close>

type_synonym groups = "string list \<times> string list"

fun m_tok :: "bool \<Rightarrow> tok \<Rightarrow> (string \<Rightarrow> groups \<Rightarrow> 'r option) \<Rightarrow> string \<Rightarrow> groups \<Rightarrow> 'r option" where
  "m_tok ci (Atom a) k s g = m_atom ci a (\<lambda>s'. k s' g) s"
| "m_tok ci (Alt alts) k s g = first_of (\<lambda>as. m_atoms ci as (\<lambda>s'. k s' g) s) alts"
| "m_tok ci Open k s g = k s (s # fst g, snd g)"
| "m_tok ci Close k s g =
     (case fst g of
        [] \<Rightarrow> None
      | opn # os \<Rightarrow> k s (os, snd g @ [take (length opn - length s) opn]))"

primrec m_toks :: "bool \<Rightarrow> tok list \<Rightarrow> string \<Rightarrow> groups \<Rightarrow> string list option" where
  "m_toks ci [] = (\<lambda>s g. Some (snd g))"
| "m_toks ci (t # ts) = m_tok ci t (m_toks ci ts)"

text \<open>\<^verbatim>\<open>s.match(re)\<close> without the flag \<^verbatim>\<open>g\<close>: the captured groups of the leftmost match.\<close>

fun rx_exec :: "bool \<Rightarrow> tok list \<Rightarrow> string \<Rightarrow> string list option" where
  "rx_exec ci ts [] = m_toks ci ts [] ([], [])"
| "rx_exec ci ts (c # cs) =
     (case m_toks ci ts (c # cs) ([], []) of
        Some r \<Rightarrow> Some r
      | None \<Rightarrow> rx_exec ci ts cs)"


text \<open>\<^verbatim>\<open>s.trim()\<close>, and \<^verbatim>\<open>parseInt\<close> on a run of decimal digits.\<close>

definition trim :: "string \<Rightarrow> string" where
  "trim s = rev (dropWhile is_space (rev (dropWhile is_space s)))"

definition parseInt :: "string \<Rightarrow> int" where
  "parseInt s = foldl (\<lambda>a c. 10 * a + (int (of_char c) - 48)) 0 s"

section \<open>The comment parser (moltbook/parser.ts)\<close>










text \<open>\<^verbatim>\<open>/(\d+)\s+(day|week|month|year)s?/\<close>\<close>

definition rx_relative :: "tok list" where
  "rx_relative = [Open, Atom (Rep Digit 1 None True), Close, Atom (Rep Space 1 None True),
     Open, Alt [[Lit ''day''], [Lit ''week''], [Lit ''month''], [Lit ''year'']], Close,
     Alt [[Lit ''s''], []]]"

text \<open>
  \<^verbatim>\<open>parseDateString\<close> has one parameter, the text. Its two further inputs are made
  explicit here: \<open>clock\<close> is what \<^verbatim>\<open>new Date()\<close> returns when the function reads the wall
  clock, and \<open>hostParse\<close> is the host's \<^verbatim>\<open>new Date(dateStr)\<close>.
\<close>

definition parseDateString :: "(string \<Rightarrow> jsdate) \<Rightarrow> civil \<Rightarrow> string \<Rightarrow> error + jsdate" where
  "parseDateString hostParse clock dateStr =
     (let normalizedStr = trim (toLowerCase dateStr);
          relative = (if str_includes normalizedStr ''within''
                      then rx_exec False rx_relative normalizedStr else None)
      in case relative of
           Some [digits, unit] \<Rightarrow>
             (let amount = parseInt digits;
                  date = clock
              in Inr (if unit = ''day'' then setDate date (getDate date + amount)
                      else if unit = ''week'' then setDate date (getDate date + amount * 7)
                      else if unit = ''month'' then setMonth date (getMonth date + amount)
                      else if unit = ''year'' then setFullYear date (getFullYear date + amount)
                      else ValidDate date))
         | _ \<Rightarrow>
             (if str_includes normalizedStr ''end of''
              then
                (let date = clock
                 in Inr (if str_includes normalizedStr ''year'' then setMonth2 date 11 31
                         else if str_includes normalizedStr ''month''
                         then setMonth2 date (getMonth date + 1) 0
                         else if str_includes normalizedStr ''quarter''
                         then (let currentMonth = getMonth date;
                                   quarterEnd = \<lceil>(of_int (currentMonth + 1) :: rat) / 3\<rceil> * 3
                               in setMonth2 date quarterEnd 0)
                         else ValidDate date))
              else
                (let parsed = hostParse dateStr
                 in if parsed \<noteq> InvalidDate then Inr parsed
                    else Inl (Error (''Could not parse date: '' @ dateStr)))))"








section \<open>Sample inputs of the parser\<close>

text \<open>
  A host date parser that reads "March 2026" as 1 March 2026, local midnight, and nothing
  else; a wall clock standing at 10 January 2026, noon.
\<close>

definition ex_hostParse :: "string \<Rightarrow> jsdate" where
  "ex_hostParse s =
     (if s = ''March 2026''
      then ValidDate \<lparr> c_year = 2026, c_month = 2, c_date = 1, c_time = 0 \<rparr>
      else InvalidDate)"

definition ex_clock :: civil where
  "ex_clock = \<lparr> c_year = 2026, c_month = 0, c_date = 10, c_time = 43200000 \<rparr>"

definition ex_clock_later :: civil where
  "ex_clock_later = \<lparr> c_year = 2027, c_month = 0, c_date = 10, c_time = 43200000 \<rparr>"




section \<open>Properties of the scorer\<close>




section \<open>Properties of settlement\<close>

lemma find_map_keep:
  assumes "\<And>x. P (f x) = P x"
  shows "find P (map f xs) = map_option f (find P xs)"
  by (induction xs) (simp_all add: assms)

lemma find_append_Some: "find P xs = Some x \<Longrightarrow> find P (xs @ ys) = Some x"
  by (induction xs) (auto split: if_splits)

lemma getPrediction_p_id: "getPrediction st pid = Some p \<Longrightarrow> p_id p = pid"
  unfolding getPrediction_def by (auto simp: find_Some_iff)

lemma getAgent_a_id: "getAgent st i = Some a \<Longrightarrow> a_id a = i"
  unfolding getAgent_def by (auto simp: find_Some_iff)

lemma db_resolvePrediction_agent:
  assumes "getPrediction st pid = Some p" and "getAgent st (agent_id p) = Some a"
  shows "getAgent (db_resolvePrediction st now pid correct tx) (agent_id p) =
     Some (if correct
           then a\<lparr> correct_predictions := correct_predictions a + 1,
                  current_streak := current_streak a + 1,
                  best_streak := max (best_streak a) (current_streak a + 1),
                  a_updated_at := now \<rparr>
           else a\<lparr> current_streak := 0, a_updated_at := now \<rparr>)"
proof -
  have pid: "p_id p = pid" using assms(1) by (rule getPrediction_p_id)
  have aid: "a_id a = agent_id p" using assms(2) by (rule getAgent_a_id)
  show ?thesis
    unfolding db_resolvePrediction_def Let_def
    using assms pid aid
    by (simp add: getPrediction_def getAgent_def find_map_keep)
qed

lemma ex_getPrediction: "getPrediction ex_store ''p1'' = Some ex_prediction"
  by (simp add: getPrediction_def ex_store_def ex_prediction_def)

lemma ex_getAgent: "getAgent ex_store (agent_id ex_prediction) = Some ex_agent"
  by (simp add: getAgent_def ex_store_def ex_prediction_def ex_agent_def)

lemma ex_status: "status ex_prediction = ''pending''"
  by (simp add: ex_prediction_def)

lemma ex_settled_eq:
  "ex_store_settled = \<lparr> agents = [ex_agent\<lparr> correct_predictions := 1, current_streak := 1,
                                          best_streak := 1, a_updated_at := 9 \<rparr>],
       predictions = [ex_prediction\<lparr> status := ''resolved_correct'', resolved_at := Some 9 \<rparr>],
       topics = [] \<rparr>"
  by (simp add: ex_store_settled_def resolvePrediction_def ex_getPrediction ex_getAgent
        ex_status Let_def)
     (simp add: db_resolvePrediction_def getPrediction_def ex_store_def ex_prediction_def
        ex_agent_def or_null_def Let_def)

text \<open>
  The two counters the settlement never writes: in every call, whatever the verdict,
  \<^verbatim>\<open>total_predictions\<close> and \<^verbatim>\<open>total_ort_earned\<close> of every agent row stay as they were.
\<close>

lemma db_resolvePrediction_counters:
  "map total_predictions (agents (db_resolvePrediction st now pid correct tx))
     = map total_predictions (agents st)
   \<and> map total_ort_earned (agents (db_resolvePrediction st now pid correct tx))
     = map total_ort_earned (agents st)"
  unfolding db_resolvePrediction_def Let_def
  by (auto split: option.splits)

lemma resolvePrediction_counters:
  "map total_predictions (agents (snd (resolvePrediction st now chain pid correct ub)))
     = map total_predictions (agents st)
   \<and> map total_ort_earned (agents (snd (resolvePrediction st now chain pid correct ub)))
     = map total_ort_earned (agents st)"
  unfolding resolvePrediction_def Let_def
  by (simp add: db_resolvePrediction_counters split: option.splits)

text \<open>
  C1, evaluated. A correct settlement of the pending forecast of the small store succeeds
  and reports the reward 110 and the new streak 1; the agent's correct count becomes 1,
  but its total count stays 0 and its cumulative reward stays 0.
\<close>

theorem resolvePrediction_total_and_reward_at_example:
  "fst (resolvePrediction ex_store 9 no_chain ''p1'' True False)
     = Inr \<lparr> r_predictionId = ''p1'', r_agentName = ''alice'', r_correct = True,
             r_reward = 110, r_newStreak = 1, r_txHash = None \<rparr>
   \<and> map correct_predictions (agents (snd (resolvePrediction ex_store 9 no_chain ''p1'' True False))) = [1]
   \<and> map total_predictions (agents (snd (resolvePrediction ex_store 9 no_chain ''p1'' True False))) = [0]
   \<and> map total_ort_earned (agents (snd (resolvePrediction ex_store 9 no_chain ''p1'' True False))) = [0]"
proof -
  have r: "totalReward (calculateReward 5 0) = 110" by code_simp
  have n: "newStreak (calculateReward 5 0) = 1" by (simp add: calculateReward_def Let_def)
  have c: "confidence ex_prediction = 5" "current_streak ex_agent = 0"
    "moltbook_name ex_agent = ''alice''"
    by (simp_all add: ex_prediction_def ex_agent_def)
  have 1: "fst (resolvePrediction ex_store 9 no_chain ''p1'' True False)
     = Inr \<lparr> r_predictionId = ''p1'', r_agentName = ''alice'', r_correct = True,
             r_reward = 110, r_newStreak = 1, r_txHash = None \<rparr>"
    by (simp add: resolvePrediction_def ex_getPrediction ex_getAgent ex_status Let_def c r n)
  have 2: "snd (resolvePrediction ex_store 9 no_chain ''p1'' True False) = ex_store_settled"
    by (simp add: ex_store_settled_def)
  show ?thesis
    unfolding 2 unfolding ex_settled_eq using 1 by (simp add: ex_agent_def)
qed



text \<open>
  C4. Settling a forecast whose status is not \<^verbatim>\<open>pending\<close> throws
  \<^verbatim>\<open>Prediction already resolved\<close> and leaves the whole store, so the forecast row and
  every counter of every agent, as it was.
\<close>

theorem resolvePrediction_not_pending:
  assumes "getPrediction st pid = Some p" and "status p \<noteq> ''pending''"
  shows "resolvePrediction st now chain pid correct ub
           = (Inl (Error (''Prediction already resolved: '' @ pid)), st)"
  using assms by (simp add: resolvePrediction_def)

theorem resolvePrediction_not_pending_witness:
  "resolvePrediction ex_store_settled 10 no_chain ''p1'' True False
     = (Inl (Error ''Prediction already resolved: p1''), ex_store_settled)"
proof -
  have 1: "getPrediction ex_store_settled ''p1''
      = Some (ex_prediction\<lparr> status := ''resolved_correct'', resolved_at := Some 9 \<rparr>)"
    unfolding ex_settled_eq by (simp add: getPrediction_def ex_prediction_def)
  have 2: "status (ex_prediction\<lparr> status := ''resolved_correct'', resolved_at := Some 9 \<rparr>)
      \<noteq> ''pending''"
    by simp
  show ?thesis
    using resolvePrediction_not_pending [OF 1 2, of 10 no_chain True False] by simp
qed

section \<open>The streak invariant\<close>

lemma ex_store_built:
  "ex_store = snd (createPrediction (snd (getOrCreateAgent empty_store 1 ''a1'' ''alice''))
                     2 ''p1'' ex_data)"
  by (simp add: ex_store_def ex_agent_def ex_prediction_def ex_data_def createPrediction_def
      getOrCreateAgent_def empty_store_def getAgentByName_def getAgent_def getPrediction_def
      or_null_def Let_def)

lemma reachable_ex_store: "reachable ex_store"
  unfolding ex_store_built
  by (intro reachable_step [OF _ step_createPrediction]
      reachable_step [OF _ step_getOrCreateAgent] reachable_empty)

lemma step_streak_le:
  assumes "step st st'"
    and "list_all (\<lambda>a. 0 \<le> current_streak a \<and> current_streak a \<le> best_streak a) (agents st)"
  shows "list_all (\<lambda>a. 0 \<le> current_streak a \<and> current_streak a \<le> best_streak a) (agents st')"
  using assms
  by (induction rule: step.induct)
     (auto simp: getOrCreateAgent_def updateAgentWallet_def createPrediction_def
        db_resolvePrediction_def createTopic_def db_resolveTopic_def Let_def list_all_iff
        split: option.splits sum.splits if_splits)

lemma reachable_streak_le:
  "reachable st \<Longrightarrow>
   list_all (\<lambda>a. 0 \<le> current_streak a \<and> current_streak a \<le> best_streak a) (agents st)"
  by (induction rule: reachable.induct) (auto simp: empty_store_def intro: step_streak_le)

lemma step_best_streak_mono:
  assumes "step st st'" and "getAgent st i = Some a"
  shows "\<exists>a'. getAgent st' i = Some a' \<and> best_streak a \<le> best_streak a'"
  using assms
  by (induction rule: step.induct)
     (auto simp: getOrCreateAgent_def updateAgentWallet_def createPrediction_def
        db_resolvePrediction_def createTopic_def db_resolveTopic_def Let_def getAgent_def
        find_map_keep find_append_Some
        split: option.splits sum.splits if_splits)

lemma getOrCreateAgent_new:
  assumes "getAgentByName st moltbookName = None"
    and "getOrCreateAgent st now uuid moltbookName = (Inr a, st')"
  shows "current_streak a = 0 \<and> best_streak a = 0"
  using assms by (auto simp: getOrCreateAgent_def Let_def split: if_splits)

text \<open>
  C9. In every store reachable from the empty one by the store's operations, every agent's
  best streak is at least its current streak; no operation lowers the best streak of an
  agent or removes the agent; a newly created agent has both streaks 0; a correct
  settlement makes the best streak the larger of its prior value and the new current
  streak, and an incorrect one sets the current streak to 0 and keeps the best streak.
\<close>

theorem best_streak_invariant:
  assumes "reachable st"
  shows "list_all (\<lambda>a. current_streak a \<le> best_streak a) (agents st)
     \<and> (\<forall>st' i a. step st st' \<longrightarrow> getAgent st i = Some a \<longrightarrow>
           (\<exists>a'. getAgent st' i = Some a' \<and> best_streak a \<le> best_streak a'))
     \<and> (\<forall>now uuid moltbookName a st'.
           getAgentByName st moltbookName = None \<longrightarrow>
           getOrCreateAgent st now uuid moltbookName = (Inr a, st') \<longrightarrow>
           current_streak a = 0 \<and> best_streak a = 0)
     \<and> (\<forall>now pid p a correct tx.
           getPrediction st pid = Some p \<longrightarrow> getAgent st (agent_id p) = Some a \<longrightarrow>
           (\<exists>a'. getAgent (db_resolvePrediction st now pid correct tx) (agent_id p) = Some a'
              \<and> current_streak a' = (if correct then current_streak a + 1 else 0)
              \<and> best_streak a' = (if correct then max (best_streak a) (current_streak a + 1)
                                    else best_streak a)))"
proof -
  have 1: "list_all (\<lambda>a. current_streak a \<le> best_streak a) (agents st)"
    using reachable_streak_le [OF assms] by (simp add: list_all_iff)
  have 2: "\<forall>st' i a. step st st' \<longrightarrow> getAgent st i = Some a \<longrightarrow>
           (\<exists>a'. getAgent st' i = Some a' \<and> best_streak a \<le> best_streak a')"
    using step_best_streak_mono by blast
  have 3: "\<forall>now uuid moltbookName a st'.
           getAgentByName st moltbookName = None \<longrightarrow>
           getOrCreateAgent st now uuid moltbookName = (Inr a, st') \<longrightarrow>
           current_streak a = 0 \<and> best_streak a = 0"
    using getOrCreateAgent_new by blast
  have 4: "\<forall>now pid p a correct tx.
           getPrediction st pid = Some p \<longrightarrow> getAgent st (agent_id p) = Some a \<longrightarrow>
           (\<exists>a'. getAgent (db_resolvePrediction st now pid correct tx) (agent_id p) = Some a'
              \<and> current_streak a' = (if correct then current_streak a + 1 else 0)
              \<and> best_streak a' = (if correct then max (best_streak a) (current_streak a + 1)
                                    else best_streak a))"
    by (simp add: db_resolvePrediction_agent)
  show ?thesis using 1 2 3 4 by blast
qed

theorem best_streak_invariant_witness:
  "reachable ex_store
   \<and> list_all (\<lambda>a. current_streak a \<le> best_streak a) (agents ex_store)
   \<and> step ex_store (db_resolvePrediction ex_store 9 ''p1'' True None)
   \<and> (\<exists>a'. getAgent (db_resolvePrediction ex_store 9 ''p1'' True None) ''a1'' = Some a'
          \<and> best_streak ex_agent \<le> best_streak a'
          \<and> current_streak a' = 1 \<and> best_streak a' = 1)"
proof -
  have s: "step ex_store (db_resolvePrediction ex_store 9 ''p1'' True None)"
    by (rule step_resolvePrediction)
  have g: "getAgent ex_store ''a1'' = Some ex_agent"
    by (simp add: getAgent_def ex_store_def ex_agent_def)
  have i: "agent_id ex_prediction = ''a1''" by (simp add: ex_prediction_def)
  have z: "current_streak ex_agent = 0" "best_streak ex_agent = 0"
    by (simp_all add: ex_agent_def)
  from best_streak_invariant [OF reachable_ex_store]
  have a: "list_all (\<lambda>a. current_streak a \<le> best_streak a) (agents ex_store)"
    and d: "\<exists>a'. getAgent (db_resolvePrediction ex_store 9 ''p1'' True None)
                   (agent_id ex_prediction) = Some a'
              \<and> current_streak a' = (if True then current_streak ex_agent + 1 else 0)
              \<and> best_streak a' = (if True then max (best_streak ex_agent)
                                      (current_streak ex_agent + 1) else best_streak ex_agent)"
    using ex_getPrediction ex_getAgent by blast+
  show ?thesis
    using reachable_ex_store a s d unfolding i z by auto
qed


section \<open>Properties of the outcome matcher\<close>


text \<open>
  C10. With a non-empty list of match terms the verdict does not depend on the outcome
  text: for any two outcome texts it is the same, namely whether the case-folded fragment
  includes some case-folded term.
\<close>

theorem matchOutcome_terms_ignore_outcome:
  assumes "matchingOutcomes \<noteq> []"
  shows "matchOutcome f a1 matchingOutcomes = matchOutcome f a2 matchingOutcomes
       \<and> matchOutcome f a1 matchingOutcomes
           = list_ex (\<lambda>m. str_includes (toLowerCase f) (toLowerCase m)) matchingOutcomes"
  using assms by (simp add: matchOutcome_def Let_def)

theorem matchOutcome_terms_ignore_outcome_witness:
  "[''rise''] \<noteq> []
   \<and> matchOutcome ''BTC will rise'' ''Yes, it happened'' [''rise'']
       = matchOutcome ''BTC will rise'' ''No, it fell'' [''rise'']
   \<and> matchOutcome ''BTC will rise'' ''Yes, it happened'' [''rise'']"
proof -
  have n: "[''rise''] \<noteq> []" by simp
  have i: "list_ex (\<lambda>m. str_includes (toLowerCase ''BTC will rise'') (toLowerCase m)) [''rise'']"
    by code_simp
  from matchOutcome_terms_ignore_outcome [OF n, of "''BTC will rise''"
        "''Yes, it happened''" "''No, it fell''"]
  have "matchOutcome ''BTC will rise'' ''Yes, it happened'' [''rise'']
       = matchOutcome ''BTC will rise'' ''No, it fell'' [''rise'']"
    and "matchOutcome ''BTC will rise'' ''Yes, it happened'' [''rise'']"
    using i by blast+
  with n show ?thesis by blast
qed


section \<open>Properties of the matcher of regular expressions\<close>


lemma first_of_Cons_Some: "f x = Some r \<Longrightarrow> first_of f (x # xs) = Some r"
  by simp
































section \<open>Properties of the parser\<close>














text \<open>
  C6, as the code has it. \<^verbatim>\<open>parseDateString\<close> reads the wall clock in its "within" and
  "end of" branches. For a fragment whose trimmed lower-case form contains neither
  "within" nor "end of" the result does not depend on the wall clock: it is the host's
  calendar parse of the fragment, or the error "Could not parse date".
\<close>

theorem parseDateString_clock_free:
  assumes "\<not> str_includes (trim (toLowerCase s)) ''within''"
    and "\<not> str_includes (trim (toLowerCase s)) ''end of''"
  shows "parseDateString P w1 s = parseDateString P w2 s
       \<and> parseDateString P w1 s
           = (if P s = InvalidDate then Inl (Error (''Could not parse date: '' @ s))
              else Inr (P s))"
  using assms by (simp add: parseDateString_def Let_def)

theorem parseDateString_clock_free_witness:
  "\<not> str_includes (trim (toLowerCase ''March 2026'')) ''within''
   \<and> \<not> str_includes (trim (toLowerCase ''March 2026'')) ''end of''
   \<and> parseDateString ex_hostParse ex_clock ''March 2026''
       = parseDateString ex_hostParse ex_clock_later ''March 2026''
   \<and> parseDateString ex_hostParse ex_clock ''March 2026''
       = Inr (ValidDate \<lparr> c_year = 2026, c_month = 2, c_date = 1, c_time = 0 \<rparr>)"
proof -
  have 1: "\<not> str_includes (trim (toLowerCase ''March 2026'')) ''within''" by code_simp
  have 2: "\<not> str_includes (trim (toLowerCase ''March 2026'')) ''end of''" by code_simp
  have 3: "ex_hostParse ''March 2026''
      = ValidDate \<lparr> c_year = 2026, c_month = 2, c_date = 1, c_time = 0 \<rparr>"
    by (simp add: ex_hostParse_def)
  note th = parseDateString_clock_free [OF 1 2, of ex_hostParse ex_clock ex_clock_later]
  have e1: "parseDateString ex_hostParse ex_clock ''March 2026''
       = parseDateString ex_hostParse ex_clock_later ''March 2026''"
    by (rule conjunct1 [OF th])
  have e2: "parseDateString ex_hostParse ex_clock ''March 2026''
       = Inr (ValidDate \<lparr> c_year = 2026, c_month = 2, c_date = 1, c_time = 0 \<rparr>)"
    unfolding conjunct2 [OF th] 3 by simp
  show ?thesis using 1 2 e1 e2 by blast
qed

text \<open>
  The fragment "end of year" read at two wall-clock moments a year apart: 31 December
  2026 and 31 December 2027.
\<close>

theorem parseDateString_reads_clock:
  "parseDateString ex_hostParse ex_clock ''end of year''
     = Inr (ValidDate \<lparr> c_year = 2026, c_month = 11, c_date = 31, c_time = 43200000 \<rparr>)
   \<and> parseDateString ex_hostParse ex_clock_later ''end of year''
     = Inr (ValidDate \<lparr> c_year = 2027, c_month = 11, c_date = 31, c_time = 43200000 \<rparr>)
   \<and> parseDateString ex_hostParse ex_clock ''end of year''
     \<noteq> parseDateString ex_hostParse ex_clock_later ''end of year''"
  by code_simp



























end
